theory Spec2Isabelle
  imports Complex_Main "HOL-Library.Sublist"
begin

section \<open>Text normalisation (server.js, normalizeText)\<close>

text \<open>
  JavaScript strings are modelled as \<^typ>\<open>string\<close>; a character stands for the code unit
  of the same number (the range 0 to 255). JavaScript numbers are modelled as
  \<^typ>\<open>nat\<close>, \<^typ>\<open>int\<close> and \<^typ>\<open>real\<close>: loop counters and list positions are naturals,
  script indices are integers, credits and scores are reals (the rounding of IEEE doubles
  is not modelled).
\<close>

definition code_unit :: "char \<Rightarrow> nat" where
  "code_unit c = of_char c"

text \<open>\<^verbatim>\<open>String.prototype.toLowerCase\<close> on one code unit below 256: the ASCII capitals
  and the Latin-1 capitals (all of 0xC0 to 0xDE but the multiplication sign) move up by 32.\<close>

definition lower_char :: "char \<Rightarrow> char" where
  "lower_char c =
     (let n = code_unit c
      in if (65 \<le> n \<and> n \<le> 90) \<or> (192 \<le> n \<and> n \<le> 222 \<and> n \<noteq> 215)
         then char_of (n + 32) else c)"

definition toLowerCase :: "string \<Rightarrow> string" where
  "toLowerCase s = map lower_char s"

text \<open>The regular-expression class \<^verbatim>\<open>\w\<close>: digits, ASCII letters and the underscore.\<close>

definition is_word_char :: "char \<Rightarrow> bool" where
  "is_word_char c =
     (let n = code_unit c
      in (48 \<le> n \<and> n \<le> 57) \<or> (65 \<le> n \<and> n \<le> 90) \<or> n = 95 \<or> (97 \<le> n \<and> n \<le> 122))"

text \<open>The class \<^verbatim>\<open>\s\<close>, which is also what \<^verbatim>\<open>trim\<close> strips: tab, line feed, vertical tab,
  form feed, carriage return, space and the no-break space.\<close>

definition is_space_char :: "char \<Rightarrow> bool" where
  "is_space_char c =
     (let n = code_unit c
      in (9 \<le> n \<and> n \<le> 13) \<or> n = 32 \<or> n = 160)"

text \<open>\<^verbatim>\<open>.replace(/[^\w\s]/g, '')\<close>\<close>

definition remove_punctuation :: "string \<Rightarrow> string" where
  "remove_punctuation s = filter (\<lambda>c. is_word_char c \<or> is_space_char c) s"

text \<open>\<^verbatim>\<open>.replace(/\s+/g, ' ')\<close>: every maximal run of white space becomes one space.\<close>

function collapse_whitespace :: "string \<Rightarrow> string" where
  "collapse_whitespace [] = []"
| "collapse_whitespace (c # cs) =
     (if is_space_char c then CHR '' '' # collapse_whitespace (dropWhile is_space_char cs)
      else c # collapse_whitespace cs)"
  by pat_completeness auto
termination
  by (relation "measure length") (auto simp: less_Suc_eq_le length_dropWhile_le)

text \<open>\<^verbatim>\<open>String.prototype.trim\<close>\<close>

definition js_trim :: "string \<Rightarrow> string" where
  "js_trim s = rev (dropWhile is_space_char (rev (dropWhile is_space_char s)))"

definition normalizeText :: "string \<Rightarrow> string" where
  "normalizeText text = js_trim (collapse_whitespace (remove_punctuation (toLowerCase text)))"

text \<open>\<^verbatim>\<open>String.prototype.split\<close> with a one-character separator: the pieces between the
  separators, empty pieces included; the empty string gives one empty piece.\<close>

fun js_split :: "char \<Rightarrow> string \<Rightarrow> string list" where
  "js_split sep [] = [[]]"
| "js_split sep (c # cs) =
     (if c = sep then [] # js_split sep cs
      else (case js_split sep cs of
              [] \<Rightarrow> [[c]]
            | w # ws \<Rightarrow> (c # w) # ws))"

text \<open>\<^verbatim>\<open>String.prototype.includes\<close>: the argument occurs as a contiguous piece.\<close>

fun js_includes :: "string \<Rightarrow> string \<Rightarrow> bool" where
  "js_includes [] t = (t = [])"
| "js_includes (c # s) t = (take (length t) (c # s) = t \<or> js_includes s t)"

section \<open>The window matcher (server.js, calculateMatch)\<close>

record match_result =
  score :: real
  matchedIndex :: "nat option"

text \<open>Lines 74 and 75: the normalised transcript, split at spaces, empty pieces dropped.\<close>

definition transcriptTokens :: "string \<Rightarrow> string list" where
  "transcriptTokens transcript =
     filter (\<lambda>w. length w > 0) (js_split CHR '' '' (normalizeText transcript))"

text \<open>
  The body of the inner loop (lines 91 to 113) for one transcript token: the pair is
  \<open>(position, matchCount)\<close>. The loop runs the body only when
  \<open>position < scriptWords.length\<close>, so \<open>scriptWords ! position\<close> is read in range.
\<close>

definition walk_step :: "string list \<Rightarrow> string \<Rightarrow> nat \<times> real \<Rightarrow> nat \<times> real" where
  "walk_step scriptWords transcriptWord pm =
     (let position = fst pm; matchCount = snd pm;
          scriptWord = normalizeText (scriptWords ! position)
      in if scriptWord = transcriptWord then (position + 1, matchCount + 1)
         else if js_includes scriptWord transcriptWord \<or> js_includes transcriptWord scriptWord
           then (position + 1, matchCount + 1 / 2)
         else if position + 1 < length scriptWords
           then (if normalizeText (scriptWords ! (position + 1)) = transcriptWord
                 then (position + 2, matchCount + 4 / 5)
                 else (position + 1, matchCount))
         else (position, matchCount))"

text \<open>The inner loop (line 90): one step for each transcript token, in order, for as long
  as the cursor is inside the window.\<close>

fun walk :: "string list \<Rightarrow> string list \<Rightarrow> nat \<times> real \<Rightarrow> nat \<times> real" where
  "walk scriptWords [] pm = pm"
| "walk scriptWords (t # ts) pm =
     (if fst pm < length scriptWords then walk scriptWords ts (walk_step scriptWords t pm)
      else pm)"

text \<open>Lines 86 to 117: the score of the candidate start \<open>i\<close>.\<close>

definition candidate_score :: "string list \<Rightarrow> string list \<Rightarrow> nat \<Rightarrow> real" where
  "candidate_score scriptWords tokens i =
     snd (walk scriptWords tokens (i, 0)) / real (length tokens)"

text \<open>Lines 119 to 122: the best candidate so far is replaced on a strictly greater score.\<close>

definition keep_best :: "string list \<Rightarrow> string list \<Rightarrow> nat \<Rightarrow> real \<times> nat option \<Rightarrow> real \<times> nat option" where
  "keep_best scriptWords tokens i best =
     (let s = candidate_score scriptWords tokens i
      in if s > fst best then (s, Some i) else best)"

definition calculateMatch :: "string \<Rightarrow> string list \<Rightarrow> match_result" where
  "calculateMatch transcript scriptWords =
     (let tokens = transcriptTokens transcript
      in if length tokens = 0 then \<lparr>score = 0, matchedIndex = None\<rparr>
         else (let best = fold (keep_best scriptWords tokens) [0..<length scriptWords] (0, None)
               in \<lparr>score = fst best, matchedIndex = snd best\<rparr>))"

section \<open>The transcription endpoint (server.js, POST /transcribe)\<close>

datatype playback = IDLE | RUNNING | PAUSED

record response =
  resp_transcript :: string
  resp_confidence :: real
  resp_matchedIndex :: "int option"
  resp_state :: playback

text \<open>The replies that carry no match result: the redirect of the authentication
  middleware, status 400 and status 500.\<close>

datatype http_error = LoginRedirect | NoAudioFile | TranscriptionFailed

text \<open>The multipart request after parsing: whether an audio file came with it, and the
  form fields, each absent (\<open>None\<close>) or holding its parsed value.\<close>

record request =
  audio_file :: bool
  body_scriptWindow :: "string list option"
  body_currentIndex :: "int option"
  body_threshold :: "real option"

text \<open>What the speech-to-text call gives back: it throws, or it yields an object whose
  \<open>text\<close> field may be missing.\<close>

datatype transcription = AsrFailure | AsrText "string option"

text \<open>Lines 141 to 143 and 155: the defaults of absent fields.\<close>

definition scriptWindow_of :: "request \<Rightarrow> string list" where
  "scriptWindow_of req = (case body_scriptWindow req of None \<Rightarrow> [] | Some w \<Rightarrow> w)"

definition currentIndex_of :: "request \<Rightarrow> int" where
  "currentIndex_of req = (case body_currentIndex req of None \<Rightarrow> 0 | Some i \<Rightarrow> i)"

definition threshold_of :: "request \<Rightarrow> real" where
  "threshold_of req = (case body_threshold req of None \<Rightarrow> 0.6 | Some t \<Rightarrow> t)"

definition text_of :: "string option \<Rightarrow> string" where
  "text_of t = (case t of None \<Rightarrow> [] | Some s \<Rightarrow> s)"

text \<open>Lines 176 to 190: the state from the score, the absolute index, the reply.\<close>

definition match_response :: "string \<Rightarrow> match_result \<Rightarrow> int \<Rightarrow> real \<Rightarrow> response" where
  "match_response transcript matchResult currentIndex threshold =
     (let state = (if score matchResult \<ge> threshold then RUNNING else PAUSED);
          absoluteMatchedIndex =
            (if matchedIndex matchResult \<noteq> None \<and> state = RUNNING
             then Some (currentIndex + int (the (matchedIndex matchResult)))
             else None)
      in \<lparr>resp_transcript = transcript, resp_confidence = score matchResult,
          resp_matchedIndex = absoluteMatchedIndex, resp_state = state\<rparr>)"

definition post_transcribe :: "bool \<Rightarrow> request \<Rightarrow> transcription \<Rightarrow> http_error + response" where
  "post_transcribe isAuthenticated req asr =
     (if \<not> isAuthenticated then Inl LoginRedirect
      else if \<not> audio_file req then Inl NoAudioFile
      else (case asr of
              AsrFailure \<Rightarrow> Inl TranscriptionFailed
            | AsrText t \<Rightarrow>
                (let transcript = text_of t
                 in if js_trim transcript = []
                    then Inr \<lparr>resp_transcript = [], resp_confidence = 0,
                              resp_matchedIndex = None, resp_state = PAUSED\<rparr>
                    else Inr (match_response transcript
                                (calculateMatch transcript (scriptWindow_of req))
                                (currentIndex_of req) (threshold_of req)))))"

section \<open>The position tracker (the front-end application)\<close>

record client_state =
  status :: playback
  scriptWords :: "string list"
  currentWordIndex :: int
  audioChunks :: nat
  isRecording :: bool

definition matchingWindow :: int where
  "matchingWindow = 30"

definition matchThreshold :: real where
  "matchThreshold = 0.6"

text \<open>\<^verbatim>\<open>Array.prototype.slice\<close> with both bounds given: a negative bound counts from the
  end, and each bound is cut to the array.\<close>

definition js_slice :: "'a list \<Rightarrow> int \<Rightarrow> int \<Rightarrow> 'a list" where
  "js_slice xs b e =
     (let n = int (length xs);
          k = (if b < 0 then max (n + b) 0 else min b n);
          final = (if e < 0 then max (n + e) 0 else min e n)
      in take (nat (final - k)) (drop (nat k) xs))"

text \<open>Lines 228 to 240 of processAudioChunk: the window and the form sent with a chunk.\<close>

definition chunk_request :: "client_state \<Rightarrow> request" where
  "chunk_request st =
     (let windowStart = currentWordIndex st;
          windowEnd = min (currentWordIndex st + matchingWindow) (int (length (scriptWords st)));
          scriptWindow = js_slice (scriptWords st) windowStart windowEnd
      in \<lparr>audio_file = True, body_scriptWindow = Some scriptWindow,
          body_currentIndex = Some (currentWordIndex st),
          body_threshold = Some matchThreshold\<rparr>)"

text \<open>Lines 259 to 268 of processAudioChunk: the reply moves the tracker.\<close>

definition handle_result :: "client_state \<Rightarrow> response \<Rightarrow> client_state" where
  "handle_result st result =
     (if resp_state result = RUNNING \<and> resp_matchedIndex result \<noteq> None
      then st\<lparr>currentWordIndex := the (resp_matchedIndex result) + 1, status := RUNNING\<rparr>
      else st\<lparr>status := PAUSED\<rparr>)"

text \<open>processAudioChunk with the whole exchange done in one step: \<open>fetch\<close> is the server's
  answer to the request. A reply that is not a match result raises inside the \<open>try\<close> and
  leaves the tracker as it was.\<close>

definition processAudioChunk :: "(request \<Rightarrow> http_error + response) \<Rightarrow> client_state \<Rightarrow> client_state" where
  "processAudioChunk fetch st =
     (if audioChunks st = 0 then st
      else (case fetch (chunk_request st) of
              Inl e \<Rightarrow> st
            | Inr result \<Rightarrow> handle_result st result))"

text \<open>startTeleprompter, once the microphone is granted: the recording loop starts with
  an empty buffer and the state becomes RUNNING; without the grant nothing changes.\<close>

definition startTeleprompter :: "bool \<Rightarrow> client_state \<Rightarrow> client_state" where
  "startTeleprompter granted st =
     (if granted then st\<lparr>isRecording := True, audioChunks := 0, status := RUNNING\<rparr> else st)"

definition stopTeleprompter :: "client_state \<Rightarrow> client_state" where
  "stopTeleprompter st = st\<lparr>isRecording := False, status := IDLE\<rparr>"

definition resetPosition :: "client_state \<Rightarrow> client_state" where
  "resetPosition st = st\<lparr>currentWordIndex := 0\<rparr>"

definition jumpToWord :: "client_state \<Rightarrow> int \<Rightarrow> client_state" where
  "jumpToWord st index = st\<lparr>currentWordIndex := index\<rparr>"

section \<open>A six-word script\<close>

definition demo_script :: "string list" where
  "demo_script = [''Hello'', ''world'', ''this'', ''is'', ''a'', ''test'']"

definition demo_state :: client_state where
  "demo_state = \<lparr>status = RUNNING, scriptWords = demo_script, currentWordIndex = 0,
                  audioChunks = 1, isRecording = True\<rparr>"

text \<open>The server as the client of an authenticated session sees it, for a given outcome
  of the speech-to-text call.\<close>

definition server :: "transcription \<Rightarrow> request \<Rightarrow> http_error + response" where
  "server asr req = post_transcribe True req asr"

section \<open>Chunks in flight\<close>

text \<open>
  processAudioChunk is an async function: it builds and sends the request (lines 221 to
  245), is suspended at the \<open>await\<close>, and goes on with the reply (lines 247 to 270) when
  the fetch resolves. The recording loop does not wait for it, so several chunks can be
  in flight. A session holds the tracker, the number of chunks sent so far, the requests
  whose replies are outstanding, each with the sequence number of its chunk, and, for
  reference, the sequence numbers of the chunks whose match results have been applied, in
  the order of application. The order in which the replies arrive is an input.
\<close>

record session =
  tracker :: client_state
  sent :: nat
  pending :: "(nat \<times> request) list"
  applied :: "nat list"

datatype event = Send | Arrive nat transcription


text \<open>The first half of processAudioChunk: nothing without audio; otherwise the request
  is built from the tracker as it is now and goes out under the next sequence number.\<close>

definition send_chunk :: "session \<Rightarrow> session" where
  "send_chunk s =
     (if audioChunks (tracker s) = 0 then s
      else s\<lparr>sent := sent s + 1,
             pending := pending s @ [(sent s + 1, chunk_request (tracker s))]\<rparr>)"

text \<open>The second half of processAudioChunk, for the chunk with sequence number \<open>k\<close> and
  the given outcome of the speech-to-text call: the reply to the request sent with the
  chunk is handled at once, against the tracker as it is on arrival; a reply that is not
  a match result leaves the tracker as it was.\<close>

definition arrive :: "nat \<Rightarrow> transcription \<Rightarrow> session \<Rightarrow> session" where
  "arrive k asr s =
     (case map_of (pending s) k of
        None \<Rightarrow> s
      | Some req \<Rightarrow>
          (let rest = filter (\<lambda>p. fst p \<noteq> k) (pending s)
           in case server asr req of
                Inl e \<Rightarrow> s\<lparr>pending := rest\<rparr>
              | Inr result \<Rightarrow>
                  s\<lparr>tracker := handle_result (tracker s) result,
                    pending := rest, applied := applied s @ [k]\<rparr>))"

fun step :: "event \<Rightarrow> session \<Rightarrow> session" where
  "step Send s = send_chunk s"
| "step (Arrive k asr) s = arrive k asr s"



section \<open>Blank transcripts\<close>

lemma space_code: "is_space_char CHR '' ''"
  by (simp add: is_space_char_def code_unit_def)

lemma lower_space: "is_space_char c \<Longrightarrow> lower_char c = c"
  by (auto simp: is_space_char_def lower_char_def Let_def)

lemma trim_Nil_spaces:
  assumes "js_trim s = []"
  shows "\<forall>c\<in>set s. is_space_char c"
proof -
  from assms have "dropWhile is_space_char (rev (dropWhile is_space_char s)) = []"
    by (simp add: js_trim_def)
  then have "\<forall>c\<in>set (dropWhile is_space_char s). is_space_char c"
    by (simp add: dropWhile_eq_Nil_conv)
  moreover have "\<forall>c\<in>set (takeWhile is_space_char s). is_space_char c"
    by (auto dest: set_takeWhileD)
  moreover have "set s = set (takeWhile is_space_char s) \<union> set (dropWhile is_space_char s)"
    by (metis set_append takeWhile_dropWhile_id)
  ultimately show ?thesis by blast
qed

lemma spaces_dropWhile: "\<forall>c\<in>set s. is_space_char c \<Longrightarrow> dropWhile is_space_char s = []"
  by (simp add: dropWhile_eq_Nil_conv)

lemma spaces_trim_Nil: "\<forall>c\<in>set s. is_space_char c \<Longrightarrow> js_trim s = []"
  by (simp add: js_trim_def spaces_dropWhile)

lemma collapse_spaces:
  "\<forall>c\<in>set s. is_space_char c \<Longrightarrow> collapse_whitespace s = [] \<or> collapse_whitespace s = [CHR '' '']"
  by (cases s) (simp_all add: spaces_dropWhile)

lemma normalize_spaces:
  assumes "\<forall>c\<in>set s. is_space_char c"
  shows "normalizeText s = []"
proof -
  have l: "toLowerCase s = s"
    using assms by (simp add: toLowerCase_def lower_space map_idI)
  have r: "remove_punctuation s = s"
    using assms by (simp add: remove_punctuation_def)
  from collapse_spaces [OF assms] show ?thesis
    by (auto simp: normalizeText_def l r spaces_trim_Nil space_code)
qed

lemma trim_Nil_tokens: "js_trim s = [] \<Longrightarrow> transcriptTokens s = []"
  by (simp add: transcriptTokens_def normalize_spaces trim_Nil_spaces)

section \<open>Credit and the best candidate\<close>

lemma walk_step_credit:
  "snd pm \<le> snd (walk_step sw t pm) \<and> snd (walk_step sw t pm) \<le> snd pm + 1"
  by (simp add: walk_step_def Let_def)

lemma walk_credit:
  "snd pm \<le> snd (walk sw ts pm) \<and> snd (walk sw ts pm) \<le> snd pm + real (length ts)"
proof (induction ts arbitrary: pm)
  case Nil
  show ?case by simp
next
  case (Cons t ts)
  show ?case
  proof (cases "fst pm < length sw")
    case True
    from Cons.IH [of "walk_step sw t pm"] walk_step_credit [of pm sw t]
    show ?thesis using True by simp
  next
    case False
    then show ?thesis by simp
  qed
qed

lemma candidate_score_bounds:
  "0 \<le> candidate_score sw tokens i \<and> candidate_score sw tokens i \<le> 1"
proof (cases "tokens = []")
  case True
  then show ?thesis by (simp add: candidate_score_def)
next
  case False
  then have pos: "0 < real (length tokens)" by simp
  from walk_credit [of "(i, 0)" sw tokens]
  have "0 \<le> snd (walk sw tokens (i, 0))" and "snd (walk sw tokens (i, 0)) \<le> real (length tokens)"
    by simp_all
  with pos show ?thesis
    by (simp add: candidate_score_def)
qed

lemma fold_keep_best_Suc:
  "fold (keep_best sw tokens) [0..<Suc n] b = keep_best sw tokens n (fold (keep_best sw tokens) [0..<n] b)"
  by simp

lemma keep_best_greater:
  "fst b < candidate_score sw tokens n \<Longrightarrow> keep_best sw tokens n b = (candidate_score sw tokens n, Some n)"
  by (simp add: keep_best_def)

lemma keep_best_other:
  "\<not> fst b < candidate_score sw tokens n \<Longrightarrow> keep_best sw tokens n b = b"
  by (simp add: keep_best_def)

lemma best_nonneg: "0 \<le> fst (fold (keep_best sw tokens) [0..<n] (0, None))"
proof (induction n)
  case 0
  show ?case by simp
next
  case (Suc n)
  let ?b = "fold (keep_best sw tokens) [0..<n] (0, None)"
  show ?case
  proof (cases "fst ?b < candidate_score sw tokens n")
    case True
    with Suc.IH have "0 \<le> candidate_score sw tokens n" by linarith
    then show ?thesis
      unfolding fold_keep_best_Suc keep_best_greater [OF True] by simp
  next
    case False
    from Suc.IH show ?thesis
      unfolding fold_keep_best_Suc keep_best_other [OF False] .
  qed
qed

lemma best_upper:
  "i < n \<Longrightarrow> candidate_score sw tokens i \<le> fst (fold (keep_best sw tokens) [0..<n] (0, None))"
proof (induction n)
  case 0
  then show ?case by simp
next
  case (Suc n)
  let ?b = "fold (keep_best sw tokens) [0..<n] (0, None)"
  have old: "candidate_score sw tokens i \<le> fst ?b" if "i < n"
    using Suc.IH that .
  show ?case
  proof (cases "fst ?b < candidate_score sw tokens n")
    case True
    have "candidate_score sw tokens i \<le> candidate_score sw tokens n"
    proof (cases "i = n")
      case True
      then show ?thesis by simp
    next
      case False
      with Suc.prems have "i < n" by simp
      from old [OF this] True show ?thesis by linarith
    qed
    then show ?thesis
      unfolding fold_keep_best_Suc keep_best_greater [OF True] by simp
  next
    case False
    have "candidate_score sw tokens i \<le> fst ?b"
    proof (cases "i = n")
      case True
      with False show ?thesis by simp
    next
      case False
      with Suc.prems have "i < n" by simp
      from old [OF this] show ?thesis .
    qed
    then show ?thesis
      unfolding fold_keep_best_Suc keep_best_other [OF False] .
  qed
qed

lemma best_None:
  "snd (fold (keep_best sw tokens) [0..<n] (0, None)) = None \<Longrightarrow>
   fst (fold (keep_best sw tokens) [0..<n] (0, None)) = 0"
proof (induction n)
  case 0
  show ?case by simp
next
  case (Suc n)
  let ?b = "fold (keep_best sw tokens) [0..<n] (0, None)"
  show ?case
  proof (cases "fst ?b < candidate_score sw tokens n")
    case True
    from Suc.prems show ?thesis
      unfolding fold_keep_best_Suc keep_best_greater [OF True] by simp
  next
    case False
    from Suc.prems have "snd ?b = None"
      unfolding fold_keep_best_Suc keep_best_other [OF False] .
    from Suc.IH [OF this] show ?thesis
      unfolding fold_keep_best_Suc keep_best_other [OF False] .
  qed
qed

lemma best_Some:
  "snd (fold (keep_best sw tokens) [0..<n] (0, None)) = Some k \<Longrightarrow>
   k < n \<and> 0 < fst (fold (keep_best sw tokens) [0..<n] (0, None))
   \<and> candidate_score sw tokens k = fst (fold (keep_best sw tokens) [0..<n] (0, None))"
proof (induction n)
  case 0
  then show ?case by simp
next
  case (Suc n)
  let ?b = "fold (keep_best sw tokens) [0..<n] (0, None)"
  show ?case
  proof (cases "fst ?b < candidate_score sw tokens n")
    case True
    from Suc.prems have "k = n"
      unfolding fold_keep_best_Suc keep_best_greater [OF True] by simp
    moreover have "0 < candidate_score sw tokens n"
      using True best_nonneg [of sw tokens n] by linarith
    ultimately show ?thesis
      unfolding fold_keep_best_Suc keep_best_greater [OF True] by simp
  next
    case False
    from Suc.prems have "snd ?b = Some k"
      unfolding fold_keep_best_Suc keep_best_other [OF False] .
    from Suc.IH [OF this] have "k < Suc n \<and> 0 < fst ?b \<and> candidate_score sw tokens k = fst ?b"
      by simp
    then show ?thesis
      unfolding fold_keep_best_Suc keep_best_other [OF False] .
  qed
qed

section \<open>The six-word script, end to end\<close>

lemma demo_reply:
  "server (AsrText (Some ''hello world'')) (chunk_request demo_state) =
     Inr \<lparr>resp_transcript = ''hello world'', resp_confidence = 1,
          resp_matchedIndex = Some 0, resp_state = RUNNING\<rparr>"
  by code_simp

lemma demo_advance:
  "processAudioChunk (server (AsrText (Some ''hello world''))) demo_state =
     demo_state\<lparr>currentWordIndex := 1, status := RUNNING\<rparr>"
  by code_simp

lemma demo_request:
  "chunk_request demo_state =
     \<lparr>audio_file = True, body_scriptWindow = Some demo_script,
      body_currentIndex = Some 0, body_threshold = Some 0.6\<rparr>"
  by code_simp

lemma demo_match:
  "calculateMatch ''hello world'' demo_script = \<lparr>score = 1, matchedIndex = Some 0\<rparr>"
  by code_simp

text \<open>
  C1, as the code has it. The script is Hello world this is a test, the tracker stands at
  index 0, the window holds all six words, the transcript is "hello world" and the
  threshold is 0.6. The matcher reports the start of the best alignment, which is window
  position 0 with score 1; the reply carries the absolute index 0 and the state RUNNING;
  the tracker moves to index 1.
\<close>

theorem end_to_end_hello_world:
  "chunk_request demo_state =
     \<lparr>audio_file = True, body_scriptWindow = Some demo_script,
      body_currentIndex = Some 0, body_threshold = Some 0.6\<rparr>
   \<and> calculateMatch ''hello world'' demo_script = \<lparr>score = 1, matchedIndex = Some 0\<rparr>
   \<and> server (AsrText (Some ''hello world'')) (chunk_request demo_state) =
       Inr \<lparr>resp_transcript = ''hello world'', resp_confidence = 1,
            resp_matchedIndex = Some 0, resp_state = RUNNING\<rparr>
   \<and> processAudioChunk (server (AsrText (Some ''hello world''))) demo_state =
       demo_state\<lparr>currentWordIndex := 1, status := RUNNING\<rparr>"
  using demo_request demo_match demo_reply demo_advance by blast

text \<open>The reply of that exchange does not carry index 1, and the tracker does not reach
  index 2.\<close>

theorem end_to_end_hello_world_counterexample:
  "resp_matchedIndex (projr (server (AsrText (Some ''hello world'')) (chunk_request demo_state))) \<noteq> Some 1
   \<and> currentWordIndex (processAudioChunk (server (AsrText (Some ''hello world''))) demo_state) \<noteq> 2"
  by (simp add: demo_reply demo_advance)

section \<open>Properties of the matcher\<close>

text \<open>
  C6. For every transcript and window the score of calculateMatch lies between 0 and 1:
  the credit gathered by a walk from any start is at least 0 and at most the number of
  transcript tokens, so the quotient needs no clamping; a transcript without tokens
  scores exactly 0.
\<close>

theorem score_in_unit_interval:
  "0 \<le> score (calculateMatch transcript window)
   \<and> score (calculateMatch transcript window) \<le> 1
   \<and> 0 \<le> snd (walk window (transcriptTokens transcript) (i, 0))
   \<and> snd (walk window (transcriptTokens transcript) (i, 0))
        \<le> real (length (transcriptTokens transcript))
   \<and> (transcriptTokens transcript = [] \<longrightarrow> score (calculateMatch transcript window) = 0)"
proof -
  let ?tokens = "transcriptTokens transcript"
  let ?best = "fold (keep_best window ?tokens) [0..<length window] (0, None)"
  have lower: "0 \<le> fst ?best"
    by (rule best_nonneg)
  have upper: "fst ?best \<le> 1"
  proof (cases "snd ?best")
    case None
    from best_None [OF this] show ?thesis by simp
  next
    case (Some k)
    from best_Some [OF this] candidate_score_bounds [of window ?tokens k]
    show ?thesis by simp
  qed
  have s: "score (calculateMatch transcript window) = (if ?tokens = [] then 0 else fst ?best)"
    by (simp add: calculateMatch_def Let_def)
  have credit: "0 \<le> snd (walk window ?tokens (i, 0))
      \<and> snd (walk window ?tokens (i, 0)) \<le> real (length ?tokens)"
    using walk_credit [of "(i, 0)" window ?tokens] by simp
  from lower upper s credit show ?thesis by simp
qed

text \<open>A transcript of punctuation only has no tokens and scores 0.\<close>

theorem score_in_unit_interval_witness:
  "transcriptTokens ''?!'' = [] \<and> score (calculateMatch ''?!'' demo_script) = 0"
proof -
  have h: "transcriptTokens ''?!'' = []" by code_simp
  from score_in_unit_interval [of "''?!''" demo_script 0] h show ?thesis by blast
qed

text \<open>
  C3 does not hold as stated: a window of one word that shares nothing with the one
  transcript token gives no candidate a positive score, and the index stays null although
  neither the transcript nor the window is empty.
\<close>

theorem matchedIndex_null_counterexample:
  "transcriptTokens ''xyz'' \<noteq> [] \<and> [''a''] \<noteq> []
   \<and> calculateMatch ''xyz'' [''a''] = \<lparr>score = 0, matchedIndex = None\<rparr>"
  by code_simp

text \<open>
  C3, as the code has it. For a transcript with at least one token, calculateMatch returns
  a null matchedIndex exactly when the returned score is 0, that is, when no candidate
  start scores above 0; an index that is not null is a start position inside the window,
  its score is positive and is the returned score. The empty window always yields score 0
  and a null index.
\<close>

theorem matchedIndex_null_iff:
  assumes "transcriptTokens transcript \<noteq> []"
  shows "((matchedIndex (calculateMatch transcript window) = None)
            = (score (calculateMatch transcript window) = 0))
       \<and> ((matchedIndex (calculateMatch transcript window) = None)
            = (\<forall>i<length window.
                 candidate_score window (transcriptTokens transcript) i = 0))
       \<and> (\<forall>k. matchedIndex (calculateMatch transcript window) = Some k \<longrightarrow>
              k < length window
              \<and> 0 < score (calculateMatch transcript window)
              \<and> score (calculateMatch transcript window)
                  = candidate_score window (transcriptTokens transcript) k)
       \<and> calculateMatch transcript [] = \<lparr>score = 0, matchedIndex = None\<rparr>"
proof -
  let ?tokens = "transcriptTokens transcript"
  let ?best = "fold (keep_best window ?tokens) [0..<length window] (0, None)"
  let ?r = "calculateMatch transcript window"
  from assms have s: "score ?r = fst ?best" and m: "matchedIndex ?r = snd ?best"
    by (simp_all add: calculateMatch_def Let_def)
  have some: "k < length window \<and> 0 < fst ?best \<and> candidate_score window ?tokens k = fst ?best"
    if "snd ?best = Some k" for k
    using best_Some [OF that] .
  have none: "fst ?best = 0" if "snd ?best = None"
    using best_None [OF that] .
  have a: "(snd ?best = None) = (fst ?best = 0)"
  proof (cases "snd ?best")
    case None
    with none show ?thesis by simp
  next
    case (Some k)
    with some [OF Some] show ?thesis by simp
  qed
  have b: "(fst ?best = 0) = (\<forall>i<length window. candidate_score window ?tokens i = 0)"
  proof
    assume z: "fst ?best = 0"
    show "\<forall>i<length window. candidate_score window ?tokens i = 0"
    proof (intro allI impI)
      fix i assume "i < length window"
      from best_upper [OF this, of window ?tokens] z
        candidate_score_bounds [of window ?tokens i]
      show "candidate_score window ?tokens i = 0" by linarith
    qed
  next
    assume z: "\<forall>i<length window. candidate_score window ?tokens i = 0"
    show "fst ?best = 0"
    proof (cases "snd ?best")
      case None
      with none show ?thesis by simp
    next
      case (Some k)
      from some [OF Some] z show ?thesis by auto
    qed
  qed
  have c: "\<forall>k. snd ?best = Some k \<longrightarrow>
     k < length window \<and> 0 < fst ?best \<and> fst ?best = candidate_score window ?tokens k"
    using some by auto
  have d: "calculateMatch transcript [] = \<lparr>score = 0, matchedIndex = None\<rparr>"
    by (simp add: calculateMatch_def Let_def)
  from a b c d show ?thesis
    unfolding s m by blast
qed

text \<open>The transcript "hello world" against the six-word script: the index is 0, inside
  the window, with a positive score.\<close>

theorem matchedIndex_null_iff_witness:
  "transcriptTokens ''hello world'' \<noteq> []
   \<and> matchedIndex (calculateMatch ''hello world'' demo_script) = Some 0
   \<and> (0::nat) < length demo_script
   \<and> 0 < score (calculateMatch ''hello world'' demo_script)"
proof -
  have h: "transcriptTokens ''hello world'' \<noteq> []" by code_simp
  have m: "matchedIndex (calculateMatch ''hello world'' demo_script) = Some 0"
    by (simp add: demo_match)
  from matchedIndex_null_iff [OF h, of demo_script] m h show ?thesis by blast
qed

section \<open>Properties of the reply and of its application\<close>

lemma blank_match: "js_trim s = [] \<Longrightarrow> calculateMatch s w = \<lparr>score = 0, matchedIndex = None\<rparr>"
  by (simp add: calculateMatch_def trim_Nil_tokens)

lemma post_transcribe_Inr:
  assumes "post_transcribe auth req asr = Inr r"
  shows "\<exists>t. asr = AsrText t
           \<and> r = (if js_trim (text_of t) = []
                  then \<lparr>resp_transcript = [], resp_confidence = 0,
                        resp_matchedIndex = None, resp_state = PAUSED\<rparr>
                  else match_response (text_of t) (calculateMatch (text_of t) (scriptWindow_of req))
                         (currentIndex_of req) (threshold_of req))"
  using assms
  by (cases asr) (auto simp: post_transcribe_def Let_def split: if_splits)

text \<open>
  C2. Let the server answer a request with a match result, computed by calculateMatch from
  the transcript and the request's window, and let the client apply the reply. If the
  score is greater than or equal to the threshold and the matched index is not null, the
  tracker's index becomes the request's window start plus the matched index plus 1, and
  the state becomes RUNNING. In every other case (a score below the threshold, a null
  index, a blank transcript) the state becomes PAUSED and the index is unchanged.
\<close>

theorem apply_match_result:
  assumes "post_transcribe auth req asr = Inr r"
  shows "\<exists>t. asr = AsrText t \<and>
           (let result = calculateMatch (text_of t) (scriptWindow_of req);
                st' = handle_result st r
            in if score result \<ge> threshold_of req \<and> matchedIndex result \<noteq> None
               then currentWordIndex st' = currentIndex_of req + int (the (matchedIndex result)) + 1
                    \<and> status st' = RUNNING
               else status st' = PAUSED \<and> currentWordIndex st' = currentWordIndex st)"
proof -
  from post_transcribe_Inr [OF assms] obtain t where a: "asr = AsrText t"
    and r: "r = (if js_trim (text_of t) = []
                  then \<lparr>resp_transcript = [], resp_confidence = 0,
                        resp_matchedIndex = None, resp_state = PAUSED\<rparr>
                  else match_response (text_of t) (calculateMatch (text_of t) (scriptWindow_of req))
                         (currentIndex_of req) (threshold_of req))"
    by blast
  let ?m = "calculateMatch (text_of t) (scriptWindow_of req)"
  have "if score ?m \<ge> threshold_of req \<and> matchedIndex ?m \<noteq> None
        then currentWordIndex (handle_result st r)
               = currentIndex_of req + int (the (matchedIndex ?m)) + 1
             \<and> status (handle_result st r) = RUNNING
        else status (handle_result st r) = PAUSED
             \<and> currentWordIndex (handle_result st r) = currentWordIndex st"
  proof (cases "js_trim (text_of t) = []")
    case True
    with r have "r = \<lparr>resp_transcript = [], resp_confidence = 0,
                        resp_matchedIndex = None, resp_state = PAUSED\<rparr>" by simp
    moreover from True have "matchedIndex ?m = None" by (simp add: blank_match)
    ultimately show ?thesis by (simp add: handle_result_def)
  next
    case False
    with r have "r = match_response (text_of t) ?m (currentIndex_of req) (threshold_of req)"
      by simp
    then show ?thesis
      by (cases "matchedIndex ?m") (simp_all add: match_response_def handle_result_def Let_def)
  qed
  with a show ?thesis by (simp add: Let_def)
qed

text \<open>A score of exactly 1 against the threshold 1: the comparison is inclusive, the tracker
  advances and the state is RUNNING, also from PAUSED.\<close>

theorem apply_match_result_witness:
  "post_transcribe True (chunk_request demo_state\<lparr>body_threshold := Some 1\<rparr>)
      (AsrText (Some ''hello world''))
     = Inr \<lparr>resp_transcript = ''hello world'', resp_confidence = 1,
            resp_matchedIndex = Some 0, resp_state = RUNNING\<rparr>
   \<and> score (calculateMatch ''hello world'' demo_script) = 1
   \<and> currentWordIndex (handle_result demo_state
        \<lparr>resp_transcript = ''hello world'', resp_confidence = 1,
         resp_matchedIndex = Some 0, resp_state = RUNNING\<rparr>) = 1
   \<and> status (handle_result (demo_state\<lparr>status := PAUSED\<rparr>)
        \<lparr>resp_transcript = ''hello world'', resp_confidence = 1,
         resp_matchedIndex = Some 0, resp_state = RUNNING\<rparr>) = RUNNING"
proof -
  let ?req = "chunk_request demo_state\<lparr>body_threshold := Some 1\<rparr>"
  let ?r = "\<lparr>resp_transcript = ''hello world'', resp_confidence = 1,
            resp_matchedIndex = Some 0, resp_state = RUNNING\<rparr>"
  have h: "post_transcribe True ?req (AsrText (Some ''hello world'')) = Inr ?r"
    by code_simp
  have w: "scriptWindow_of ?req = demo_script" by code_simp
  have c: "currentIndex_of ?req = 0" by code_simp
  have th: "threshold_of ?req = 1" by code_simp
  have m: "calculateMatch ''hello world'' demo_script = \<lparr>score = 1, matchedIndex = Some 0\<rparr>"
    by code_simp
  from apply_match_result [OF h, of demo_state]
  have 1: "currentWordIndex (handle_result demo_state ?r) = 1"
    by (simp add: text_of_def w c th m Let_def)
  from apply_match_result [OF h, of "demo_state\<lparr>status := PAUSED\<rparr>"]
  have 2: "status (handle_result (demo_state\<lparr>status := PAUSED\<rparr>) ?r) = RUNNING"
    by (simp add: text_of_def w c th m Let_def)
  from h m 1 2 show ?thesis by simp
qed

text \<open>
  C7. In every successful reply of the endpoint the matched index is null whenever the
  state is PAUSED, and whenever the transcript is blank or has no token; an index that is
  not null comes only with the state RUNNING.
\<close>

theorem reply_index_null:
  assumes "post_transcribe auth req asr = Inr r"
  shows "(resp_state r = PAUSED \<longrightarrow> resp_matchedIndex r = None)
       \<and> (\<forall>t. asr = AsrText t \<and> js_trim (text_of t) = [] \<longrightarrow> resp_matchedIndex r = None)
       \<and> (\<forall>t. asr = AsrText t \<and> transcriptTokens (text_of t) = [] \<longrightarrow> resp_matchedIndex r = None)
       \<and> (resp_matchedIndex r \<noteq> None \<longrightarrow> resp_state r = RUNNING)"
proof -
  from post_transcribe_Inr [OF assms] obtain t where a: "asr = AsrText t"
    and r: "r = (if js_trim (text_of t) = []
                  then \<lparr>resp_transcript = [], resp_confidence = 0,
                        resp_matchedIndex = None, resp_state = PAUSED\<rparr>
                  else match_response (text_of t) (calculateMatch (text_of t) (scriptWindow_of req))
                         (currentIndex_of req) (threshold_of req))"
    by blast
  let ?m = "calculateMatch (text_of t) (scriptWindow_of req)"
  have tok: "matchedIndex ?m = None" if "transcriptTokens (text_of t) = []"
    using that by (simp add: calculateMatch_def)
  have 1: "resp_state r = PAUSED \<longrightarrow> resp_matchedIndex r = None"
    unfolding r by (simp add: match_response_def Let_def split: option.splits)
  have 2: "js_trim (text_of t) = [] \<longrightarrow> resp_matchedIndex r = None"
    unfolding r by simp
  have 3: "transcriptTokens (text_of t) = [] \<longrightarrow> resp_matchedIndex r = None"
    unfolding r using tok by (simp add: match_response_def Let_def)
  have 4: "resp_matchedIndex r \<noteq> None \<longrightarrow> resp_state r = RUNNING"
    unfolding r by (simp add: match_response_def Let_def split: option.splits)
  from a 1 2 3 4 show ?thesis by simp
qed

text \<open>A transcript off the script: the reply is PAUSED and carries no index.\<close>

theorem reply_index_null_witness:
  "post_transcribe True (chunk_request demo_state) (AsrText (Some ''go home''))
     = Inr \<lparr>resp_transcript = ''go home'', resp_confidence = 0,
            resp_matchedIndex = None, resp_state = PAUSED\<rparr>
   \<and> resp_matchedIndex \<lparr>resp_transcript = ''go home'', resp_confidence = 0,
            resp_matchedIndex = None, resp_state = PAUSED\<rparr> = None"
proof -
  let ?r = "\<lparr>resp_transcript = ''go home'', resp_confidence = 0,
            resp_matchedIndex = None, resp_state = PAUSED\<rparr>"
  have h: "post_transcribe True (chunk_request demo_state) (AsrText (Some ''go home'')) = Inr ?r"
    by code_simp
  have p: "resp_state ?r = PAUSED" by simp
  from reply_index_null [OF h] p have "resp_matchedIndex ?r = None" by blast
  with h show ?thesis by blast
qed

text \<open>
  C10. In every successful reply the confidence is exactly the score that calculateMatch
  computes from the transcript and the window of the request; for a blank transcript it
  is exactly 0.
\<close>

theorem confidence_is_match_score:
  assumes "post_transcribe auth req asr = Inr r"
  shows "\<exists>t. asr = AsrText t
           \<and> resp_confidence r = score (calculateMatch (text_of t) (scriptWindow_of req))
           \<and> (js_trim (text_of t) = [] \<longrightarrow> resp_confidence r = 0)"
proof -
  from post_transcribe_Inr [OF assms] obtain t where a: "asr = AsrText t"
    and r: "r = (if js_trim (text_of t) = []
                  then \<lparr>resp_transcript = [], resp_confidence = 0,
                        resp_matchedIndex = None, resp_state = PAUSED\<rparr>
                  else match_response (text_of t) (calculateMatch (text_of t) (scriptWindow_of req))
                         (currentIndex_of req) (threshold_of req))"
    by blast
  have "resp_confidence r = score (calculateMatch (text_of t) (scriptWindow_of req))"
    unfolding r by (simp add: blank_match match_response_def Let_def)
  moreover have "js_trim (text_of t) = [] \<longrightarrow> resp_confidence r = 0"
    unfolding r by simp
  ultimately show ?thesis using a by simp
qed

text \<open>One token of three matches the script: the confidence is the score, one third.\<close>

theorem confidence_is_match_score_witness:
  "post_transcribe True (chunk_request demo_state) (AsrText (Some ''the quick test''))
     = Inr \<lparr>resp_transcript = ''the quick test'', resp_confidence = 1 / 3,
            resp_matchedIndex = None, resp_state = PAUSED\<rparr>
   \<and> score (calculateMatch ''the quick test'' demo_script) = 1 / 3"
proof -
  let ?r = "\<lparr>resp_transcript = ''the quick test'', resp_confidence = 1 / 3,
            resp_matchedIndex = None, resp_state = PAUSED\<rparr>"
  have h: "post_transcribe True (chunk_request demo_state) (AsrText (Some ''the quick test'')) = Inr ?r"
    by code_simp
  have w: "scriptWindow_of (chunk_request demo_state) = demo_script" by code_simp
  from confidence_is_match_score [OF h] h show ?thesis
    by (simp add: text_of_def w)
qed

section \<open>The cursor of the walk\<close>

text \<open>
  C4, as the code has it. With the cursor inside the window, one transcript token earns a
  credit of 0, 0.5, 0.8 or 1. The skip credit 0.8 moves the cursor by 2, and is earned
  only when the next window word equals the token; an exact match (credit 1) and a
  substring match (credit 0.5) move it by 1; a token without credit moves it by 1 when a
  next window word exists, and leaves it in place on the last window position.
\<close>

theorem walk_step_cursor:
  assumes "position < length window"
  shows "let p' = fst (walk_step window t (position, credit));
             gain = snd (walk_step window t (position, credit)) - credit
         in (gain = 0 \<or> gain = 1 / 2 \<or> gain = 4 / 5 \<or> gain = 1)
            \<and> (gain = 4 / 5 \<longrightarrow>
                  p' = position + 2 \<and> position + 1 < length window
                  \<and> normalizeText (window ! (position + 1)) = t)
            \<and> (gain = 1 \<longrightarrow> p' = position + 1 \<and> normalizeText (window ! position) = t)
            \<and> (gain = 1 / 2 \<longrightarrow>
                  p' = position + 1
                  \<and> (js_includes (normalizeText (window ! position)) t
                       \<or> js_includes t (normalizeText (window ! position))))
            \<and> (gain = 0 \<and> position + 1 < length window \<longrightarrow> p' = position + 1)
            \<and> (gain = 0 \<and> position + 1 = length window \<longrightarrow> p' = position)"
proof -
  let ?w = "normalizeText (window ! position)"
  consider (exact) "?w = t"
    | (partial) "?w \<noteq> t" "js_includes ?w t \<or> js_includes t ?w"
    | (skip) "?w \<noteq> t" "\<not> (js_includes ?w t \<or> js_includes t ?w)"
        "position + 1 < length window" "normalizeText (window ! (position + 1)) = t"
    | (miss) "?w \<noteq> t" "\<not> (js_includes ?w t \<or> js_includes t ?w)"
        "position + 1 < length window" "normalizeText (window ! (position + 1)) \<noteq> t"
    | (stuck) "?w \<noteq> t" "\<not> (js_includes ?w t \<or> js_includes t ?w)"
        "\<not> position + 1 < length window"
    by blast
  then show ?thesis
  proof cases
    case exact
    then have "walk_step window t (position, credit) = (position + 1, credit + 1)"
      by (simp add: walk_step_def)
    with exact show ?thesis by simp
  next
    case partial
    then have "walk_step window t (position, credit) = (position + 1, credit + 1 / 2)"
      by (simp add: walk_step_def)
    with partial show ?thesis by simp
  next
    case skip
    then have "walk_step window t (position, credit) = (position + 2, credit + 4 / 5)"
      by (simp add: walk_step_def)
    with skip show ?thesis by simp
  next
    case miss
    then have "walk_step window t (position, credit) = (position + 1, credit)"
      by (simp add: walk_step_def)
    with miss show ?thesis by simp
  next
    case stuck
    then have "walk_step window t (position, credit) = (position, credit)"
      by (simp add: walk_step_def)
    moreover from stuck assms have "position + 1 = length window" by simp
    ultimately show ?thesis by simp
  qed
qed

text \<open>A window of one word and a token that shares nothing with it: the cursor is inside
  the window, the token earns no credit, and the cursor does not move.\<close>

theorem walk_step_cursor_counterexample:
  "(0::nat) < length [''a''] \<and> walk_step [''a''] ''x'' (0, 0) = (0, 0)"
  by code_simp

text \<open>In the window the quick brown fox: on "brown" the token "fox" takes the skip credit
  and the cursor goes from 2 to 4; on "fox", the last word, the token "dog" earns nothing
  and the cursor stays at 3.\<close>

theorem walk_step_cursor_witness:
  "(2::nat) < length [''the'', ''quick'', ''brown'', ''fox'']
   \<and> snd (walk_step [''the'', ''quick'', ''brown'', ''fox''] ''fox'' (2, 2)) - 2 = 4 / 5
   \<and> fst (walk_step [''the'', ''quick'', ''brown'', ''fox''] ''fox'' (2, 2)) = 4
   \<and> (3::nat) < length [''the'', ''quick'', ''brown'', ''fox'']
   \<and> snd (walk_step [''the'', ''quick'', ''brown'', ''fox''] ''dog'' (3, 2)) - 2 = 0
   \<and> fst (walk_step [''the'', ''quick'', ''brown'', ''fox''] ''dog'' (3, 2)) = 3"
proof -
  let ?w = "[''the'', ''quick'', ''brown'', ''fox'']"
  have h: "(2::nat) < length ?w" by simp
  have g: "snd (walk_step ?w ''fox'' (2, 2)) - 2 = 4 / 5" by code_simp
  have h': "(3::nat) < length ?w" by simp
  have g': "snd (walk_step ?w ''dog'' (3, 2)) - 2 = 0" by code_simp
  from walk_step_cursor [OF h, of "''fox''" 2] g
  have 1: "fst (walk_step ?w ''fox'' (2, 2)) = 4" by (simp add: Let_def)
  from walk_step_cursor [OF h', of "''dog''" 2] g'
  have 2: "fst (walk_step ?w ''dog'' (3, 2)) = 3" by (simp add: Let_def)
  from h g 1 h' g' 2 show ?thesis by blast
qed

section \<open>Moving the tracker\<close>

text \<open>
  C5, as the code has it. Applying a reply never decreases the tracker's index when the
  request's window start is not behind that index; this holds in particular when a chunk
  is sent and its reply applied in one step. Starting and stopping leave the index as it
  is, resetPosition puts it at 0 and jumpToWord at the index given.
\<close>

theorem apply_never_regresses:
  "(post_transcribe auth req asr = Inr r \<and> currentWordIndex st \<le> currentIndex_of req
      \<longrightarrow> currentWordIndex st \<le> currentWordIndex (handle_result st r))
   \<and> currentWordIndex st
        \<le> currentWordIndex (processAudioChunk (\<lambda>q. post_transcribe auth q asr) st)
   \<and> currentWordIndex (startTeleprompter granted st) = currentWordIndex st
   \<and> currentWordIndex (stopTeleprompter st) = currentWordIndex st
   \<and> currentWordIndex (resetPosition st) = 0
   \<and> currentWordIndex (jumpToWord st i) = i"
proof -
  have step: "currentWordIndex st \<le> currentWordIndex (handle_result st r)"
    if p: "post_transcribe auth req asr = Inr r" and w: "currentWordIndex st \<le> currentIndex_of req"
    for req r
  proof (cases "resp_matchedIndex r")
    case None
    then show ?thesis by (simp add: handle_result_def)
  next
    case (Some m)
    from post_transcribe_Inr [OF p] obtain t where
      r: "r = (if js_trim (text_of t) = []
                  then \<lparr>resp_transcript = [], resp_confidence = 0,
                        resp_matchedIndex = None, resp_state = PAUSED\<rparr>
                  else match_response (text_of t) (calculateMatch (text_of t) (scriptWindow_of req))
                         (currentIndex_of req) (threshold_of req))"
      by blast
    from Some have "currentIndex_of req \<le> m"
      unfolding r by (auto simp: match_response_def Let_def split: if_splits option.splits)
    with w Some show ?thesis by (simp add: handle_result_def)
  qed
  have chunk: "currentWordIndex st
        \<le> currentWordIndex (processAudioChunk (\<lambda>q. post_transcribe auth q asr) st)"
  proof (cases "post_transcribe auth (chunk_request st) asr")
    case (Inl e)
    then show ?thesis by (simp add: processAudioChunk_def)
  next
    case (Inr r)
    have "currentIndex_of (chunk_request st) = currentWordIndex st"
      by (simp add: chunk_request_def currentIndex_of_def Let_def)
    with step [OF Inr] have "currentWordIndex st \<le> currentWordIndex (handle_result st r)"
      by simp
    with Inr show ?thesis by (simp add: processAudioChunk_def)
  qed
  have rest: "currentWordIndex (startTeleprompter granted st) = currentWordIndex st
     \<and> currentWordIndex (stopTeleprompter st) = currentWordIndex st
     \<and> currentWordIndex (resetPosition st) = 0
     \<and> currentWordIndex (jumpToWord st i) = i"
    by (simp add: startTeleprompter_def stopTeleprompter_def resetPosition_def jumpToWord_def)
  from step chunk rest show ?thesis by blast
qed

text \<open>A reply computed for the window start 0 and applied after the tracker has been moved
  to index 5 sets the index back to 1.\<close>

theorem apply_never_regresses_counterexample:
  "currentWordIndex
     (handle_result (jumpToWord demo_state 5)
        (projr (post_transcribe True (chunk_request demo_state) (AsrText (Some ''hello world'')))))
   < currentWordIndex (jumpToWord demo_state 5)"
  by (simp add: demo_reply [unfolded server_def] handle_result_def jumpToWord_def)

text \<open>The request and the reply of the six-word script, applied to the state that sent the
  request.\<close>

theorem apply_never_regresses_witness:
  "post_transcribe True (chunk_request demo_state) (AsrText (Some ''hello world''))
     = Inr \<lparr>resp_transcript = ''hello world'', resp_confidence = 1,
            resp_matchedIndex = Some 0, resp_state = RUNNING\<rparr>
   \<and> currentWordIndex demo_state \<le> currentIndex_of (chunk_request demo_state)
   \<and> currentWordIndex demo_state
       \<le> currentWordIndex (handle_result demo_state
            \<lparr>resp_transcript = ''hello world'', resp_confidence = 1,
             resp_matchedIndex = Some 0, resp_state = RUNNING\<rparr>)"
proof -
  have w: "currentWordIndex demo_state \<le> currentIndex_of (chunk_request demo_state)"
    by code_simp
  from apply_never_regresses [of True "chunk_request demo_state" "AsrText (Some ''hello world'')" _ demo_state]
    demo_reply [unfolded server_def] w
  show ?thesis by blast
qed

text \<open>
  C8, as the code has it. jumpToWord sets the index to the index given, in any state and
  without clamping, and changes nothing else; the new index lies between 0 and the length
  of the script exactly when the index given does.
\<close>

theorem jumpToWord_sets_index:
  "currentWordIndex (jumpToWord st i) = i
   \<and> status (jumpToWord st i) = status st
   \<and> scriptWords (jumpToWord st i) = scriptWords st
   \<and> ((0 \<le> currentWordIndex (jumpToWord st i)
        \<and> currentWordIndex (jumpToWord st i) \<le> int (length (scriptWords (jumpToWord st i))))
       = (0 \<le> i \<and> i \<le> int (length (scriptWords st))))"
  by (simp add: jumpToWord_def)
text \<open>On the six-word script the index - 1 gives a negative position, and the index 7 a
  position past the end.\<close>

theorem jumpToWord_sets_index_counterexample:
  "currentWordIndex (jumpToWord demo_state (- 1)) < 0
   \<and> int (length (scriptWords (jumpToWord demo_state 7))) < currentWordIndex (jumpToWord demo_state 7)"
  by (simp add: jumpToWord_def demo_state_def demo_script_def)

section \<open>The order of application\<close>










end
